theory Spec2Isabelle
  imports Main "HOL-Library.Word"
begin

unbundle bit_operations_syntax

section \<open>Data model of DisplayAnalyzer.cpp\<close>

text \<open>
  The layer lists handed to \<open>DisplayAnalyzer::analyzeContents\<close> are the HAL structures
  \<open>hwc_layer_1_t\<close> and \<open>hwc_display_contents_1_t\<close>. Only the fields the analyzer reads
  or writes are kept. \<open>numHwLayers\<close> is the length of \<open>hwLayers\<close>. The display list
  has a field \<open>flags\<close> of its own in the source; it is called \<open>dflags\<close> here because a
  layer has a field \<open>flags\<close> too. The rectangle fields are C \<open>int\<close>s.
\<close>

record hwc_rect_t =
  r_left :: "32 word"
  r_top :: "32 word"
  r_right :: "32 word"
  r_bottom :: "32 word"

record hwc_layer_1 =
  compositionType :: "32 word"
  hints :: "32 word"
  flags :: "32 word"
  handle :: "32 word"
  displayFrame :: hwc_rect_t

record hwc_display_contents_1 =
  dflags :: "32 word"
  hwLayers :: "hwc_layer_1 list"

record drmModeModeInfo =
  hdisplay :: "16 word"
  vdisplay :: "16 word"

record DataBuffer =
  getFormat :: "32 word"

datatype device = DEVICE_PRIMARY | DEVICE_EXTERNAL | DEVICE_VIRTUAL

text \<open>
  What the source takes from headers and singletons that are not part of the analyzer:
  the bit masks and composition types of the HAL header, and the three queries
  \<open>BufferManager::lockDataBuffer\<close> (\<open>None\<close> is the null buffer),
  \<open>DisplayQuery::isVideoFormat\<close> and \<open>Drm::getModeInfo\<close> (\<open>None\<close> is the \<open>false\<close>
  return). They are parameters of every function that uses them.
\<close>

record hwc_env =
  HWC_GEOMETRY_CHANGED :: "32 word"
  HWC_TRICK_MODE :: "32 word"
  HWC_SKIP_LAYER :: "32 word"
  HWC_HINT_CLEAR_FB :: "32 word"
  HWC_FRAMEBUFFER :: "32 word"
  HWC_OVERLAY :: "32 word"
  lockDataBuffer :: "32 word \<Rightarrow> DataBuffer option"
  isVideoFormat :: "32 word \<Rightarrow> bool"
  getModeInfo :: "device \<Rightarrow> drmModeModeInfo option"

datatype Event =
    HOTPLUG_EVENT bool
  | BLANK_EVENT bool
  | VIDEO_EVENT bool bool

datatype external_call = ResetVsyncSource | Invalidate

text \<open>
  The members of the class. \<open>mCachedDisplays\<close> and \<open>mCachedNumDisplays\<close> are one list:
  the array the caller passed and its length (a count that fits the \<open>int\<close> the loops
  cast it to); the empty list is the cleared cache (pointer 0, count 0). Slot 0 is
  \<open>IDisplayDevice::DEVICE_PRIMARY\<close>: the source reads the primary list both under that
  name and as \<open>mCachedDisplays[0]\<close>. The array belongs to the caller and is changed in place, so
  \<open>analyzeContents\<close> below returns its final contents. \<open>calls\<close> records, newest last,
  the calls made to the vsync manager and to \<open>Hwcomposer::invalidate\<close>.
\<close>

record DisplayAnalyzer =
  mInitialized :: bool
  mEnableVideoExtendedMode :: bool
  mVideoExtendedMode :: bool
  mForceCloneMode :: bool
  mBlankDevice :: bool
  mVideoPlaying :: bool
  mVideoPreparing :: bool
  mOverlayAllowed :: bool
  mCachedDisplays :: "hwc_display_contents_1 option list"
  mPendingEvents :: "Event list"
  calls :: "external_call list"

section \<open>Construction and configuration\<close>

definition constructor :: DisplayAnalyzer where
  "constructor =
     \<lparr> mInitialized = False, mEnableVideoExtendedMode = True, mVideoExtendedMode = False,
       mForceCloneMode = False, mBlankDevice = False, mVideoPlaying = False,
       mVideoPreparing = False, mOverlayAllowed = True, mCachedDisplays = [],
       mPendingEvents = [], calls = [] \<rparr>"

text \<open>
  \<open>property_get("hwc.video.extmode.enable", prop, "1")\<close> followed by \<open>atoi(prop)\<close>:
  the argument is \<open>Some n\<close> when \<open>property_get\<close> returned a positive length and
  \<open>atoi\<close> gave \<open>n\<close>, and \<open>None\<close> otherwise.
\<close>

definition readEnableProperty :: "int option \<Rightarrow> DisplayAnalyzer \<Rightarrow> DisplayAnalyzer" where
  "readEnableProperty prop s =
     (case prop of
        None \<Rightarrow> s
      | Some n \<Rightarrow> s\<lparr>mEnableVideoExtendedMode := (n \<noteq> 0)\<rparr>)"

definition initialize :: "int option \<Rightarrow> DisplayAnalyzer \<Rightarrow> DisplayAnalyzer" where
  "initialize prop s =
     (readEnableProperty prop s)
       \<lparr> mVideoExtendedMode := False, mForceCloneMode := False, mBlankDevice := False,
         mVideoPlaying := False, mVideoPreparing := False, mOverlayAllowed := True,
         mCachedDisplays := [], mPendingEvents := [], mInitialized := True \<rparr>"

definition deinitialize :: "DisplayAnalyzer \<Rightarrow> DisplayAnalyzer" where
  "deinitialize s = s\<lparr>mPendingEvents := [], mInitialized := False\<rparr>"

definition isVideoExtendedModeEnabled ::
  "int option \<Rightarrow> DisplayAnalyzer \<Rightarrow> bool \<times> DisplayAnalyzer" where
  "isVideoExtendedModeEnabled prop s =
     (let s1 = readEnableProperty prop s in (mEnableVideoExtendedMode s1, s1))"

definition checkVideoExtendedMode :: "DisplayAnalyzer \<Rightarrow> bool" where
  "checkVideoExtendedMode s = (mVideoExtendedMode s \<and> \<not> mForceCloneMode s)"

definition isVideoPlaying :: "DisplayAnalyzer \<Rightarrow> bool" where
  "isVideoPlaying s = mVideoPlaying s"

definition isOverlayAllowed :: "DisplayAnalyzer \<Rightarrow> bool" where
  "isOverlayAllowed s = mOverlayAllowed s"

section \<open>Posting events\<close>

definition postEvent :: "Event \<Rightarrow> DisplayAnalyzer \<Rightarrow> DisplayAnalyzer" where
  "postEvent e s = s\<lparr>mPendingEvents := mPendingEvents s @ [e]\<rparr>"

definition postHotplugEvent :: "bool \<Rightarrow> DisplayAnalyzer \<Rightarrow> DisplayAnalyzer" where
  "postHotplugEvent connected s =
     (if \<not> connected then s\<lparr>calls := calls s @ [ResetVsyncSource]\<rparr>
      else (let s1 = postEvent (HOTPLUG_EVENT connected) s
            in s1\<lparr>calls := calls s1 @ [Invalidate]\<rparr>))"

definition postVideoEvent :: "bool \<Rightarrow> bool \<Rightarrow> DisplayAnalyzer \<Rightarrow> DisplayAnalyzer" where
  "postVideoEvent preparing playing s = postEvent (VIDEO_EVENT preparing playing) s"

definition postBlankEvent :: "bool \<Rightarrow> DisplayAnalyzer \<Rightarrow> DisplayAnalyzer" where
  "postBlankEvent blank s =
     (let s1 = postEvent (BLANK_EVENT blank) s
      in s1\<lparr>calls := calls s1 @ [Invalidate]\<rparr>)"

section \<open>Blanking the secondary devices\<close>

text \<open>The body of the inner loop of \<open>blankSecondaryDevice\<close>, for one layer.\<close>

definition blankLayer :: "hwc_env \<Rightarrow> bool \<Rightarrow> hwc_layer_1 \<Rightarrow> hwc_layer_1" where
  "blankLayer env blank layer =
     (if blank
      then layer\<lparr> hints := hints layer OR HWC_HINT_CLEAR_FB env,
                  flags := flags layer AND NOT (HWC_SKIP_LAYER env),
                  compositionType := HWC_OVERLAY env \<rparr>
      else layer\<lparr> hints := hints layer AND NOT (HWC_HINT_CLEAR_FB env),
                  compositionType := HWC_FRAMEBUFFER env \<rparr>)"

text \<open>
  The inner loop, \<open>j\<close> from 0 while \<open>j < (int)numHwLayers - 1\<close>: every layer but the last
  one; no layer at all when the list is empty.
\<close>

fun blankLayers :: "hwc_env \<Rightarrow> bool \<Rightarrow> hwc_layer_1 list \<Rightarrow> hwc_layer_1 list" where
  "blankLayers env blank [] = []"
| "blankLayers env blank [target] = [target]"
| "blankLayers env blank (layer # rest) = blankLayer env blank layer # blankLayers env blank rest"

definition blankContent ::
  "hwc_env \<Rightarrow> bool \<Rightarrow> hwc_display_contents_1 option \<Rightarrow> hwc_display_contents_1 option" where
  "blankContent env blank content =
     (case content of
        None \<Rightarrow> None
      | Some c \<Rightarrow> Some (c\<lparr>hwLayers := blankLayers env blank (hwLayers c)\<rparr>))"

text \<open>The outer loop skips slot 0 (\<open>DEVICE_PRIMARY\<close>) and the null slots.\<close>

definition blankSecondaryDevice :: "hwc_env \<Rightarrow> DisplayAnalyzer \<Rightarrow> DisplayAnalyzer" where
  "blankSecondaryDevice env s =
     (case mCachedDisplays s of
        [] \<Rightarrow> s
      | primary # others \<Rightarrow>
          s\<lparr>mCachedDisplays := primary # map (blankContent env (mBlankDevice s)) others\<rparr>)"

section \<open>Handling the pending events\<close>

definition markGeometryChanged ::
  "hwc_env \<Rightarrow> hwc_display_contents_1 option \<Rightarrow> hwc_display_contents_1 option" where
  "markGeometryChanged env content =
     (case content of
        None \<Rightarrow> None
      | Some c \<Rightarrow> Some (c\<lparr>dflags := dflags c OR HWC_GEOMETRY_CHANGED env\<rparr>))"

definition handleHotplugEvent :: "bool \<Rightarrow> DisplayAnalyzer \<Rightarrow> DisplayAnalyzer" where
  "handleHotplugEvent connected s = s\<lparr>calls := calls s @ [ResetVsyncSource]\<rparr>"

definition handleBlankEvent :: "hwc_env \<Rightarrow> bool \<Rightarrow> DisplayAnalyzer \<Rightarrow> DisplayAnalyzer" where
  "handleBlankEvent env blank s =
     (let s1 = s\<lparr>mBlankDevice := blank\<rparr>;
          s2 = (case mCachedDisplays s1 of
                  [] \<Rightarrow> s1
                | primary # others \<Rightarrow>
                    s1\<lparr>mCachedDisplays := primary # map (markGeometryChanged env) others\<rparr>)
      in blankSecondaryDevice env s2)"

definition handleVideoEvent :: "bool \<Rightarrow> bool \<Rightarrow> DisplayAnalyzer \<Rightarrow> DisplayAnalyzer" where
  "handleVideoEvent preparing playing s = s\<lparr>mVideoPlaying := playing\<rparr>"

text \<open>The \<open>switch\<close> on the event type in \<open>handlePendingEvents\<close>.\<close>

definition handleEvent :: "hwc_env \<Rightarrow> Event \<Rightarrow> DisplayAnalyzer \<Rightarrow> DisplayAnalyzer" where
  "handleEvent env e s =
     (case e of
        HOTPLUG_EVENT connected \<Rightarrow> handleHotplugEvent connected s
      | BLANK_EVENT blank \<Rightarrow> handleBlankEvent env blank s
      | VIDEO_EVENT preparing playing \<Rightarrow> handleVideoEvent preparing playing s)"

text \<open>
  The \<open>while\<close> loop: take element 0, remove it, dispatch it, until the vector is empty.
  No handler touches the vector, so each round makes it one shorter.
\<close>

function handlePendingEvents :: "hwc_env \<Rightarrow> DisplayAnalyzer \<Rightarrow> DisplayAnalyzer" where
  "handlePendingEvents env s =
     (if length (mPendingEvents s) = 0 then s
      else handlePendingEvents env
             (handleEvent env (hd (mPendingEvents s))
                (s\<lparr>mPendingEvents := tl (mPendingEvents s)\<rparr>)))"
  by pat_completeness auto

termination
  by (relation "measure (\<lambda>(env, s). length (mPendingEvents s))")
     (auto simp: handleEvent_def handleHotplugEvent_def handleBlankEvent_def
        handleVideoEvent_def blankSecondaryDevice_def Let_def
        split: Event.splits list.splits)

declare handlePendingEvents.simps [simp del]

section \<open>Trick mode\<close>

text \<open>
  The loop of \<open>detectTrickMode\<close> over all layers of the list, the last one included:
  the first layer carrying \<open>HWC_TRICK_MODE\<close> gets its composition type reset and ends
  the loop. The result is \<open>detected\<close> and the layers as the loop leaves them.
\<close>

fun trickLoop :: "hwc_env \<Rightarrow> hwc_layer_1 list \<Rightarrow> bool \<times> hwc_layer_1 list" where
  "trickLoop env [] = (False, [])"
| "trickLoop env (layer # rest) =
     (if flags layer AND HWC_TRICK_MODE env \<noteq> 0
      then (True, layer\<lparr>compositionType := HWC_FRAMEBUFFER env\<rparr> # rest)
      else (let (detected, rest') = trickLoop env rest in (detected, layer # rest')))"

text \<open>
  \<open>detectTrickMode(list)\<close>: the argument is the pointer to one display list (\<open>None\<close> is
  null); the list it points to is returned as the call leaves it.
\<close>

definition detectTrickMode ::
  "hwc_env \<Rightarrow> hwc_display_contents_1 option \<Rightarrow> DisplayAnalyzer
     \<Rightarrow> DisplayAnalyzer \<times> hwc_display_contents_1 option" where
  "detectTrickMode env list s =
     (case list of
        None \<Rightarrow> (s, None)
      | Some c \<Rightarrow>
          (let (detected, layers) = trickLoop env (hwLayers c);
               c1 = c\<lparr>hwLayers := layers\<rparr>
           in if detected \<noteq> mForceCloneMode s
              then (s\<lparr>mForceCloneMode := detected\<rparr>,
                    Some (c1\<lparr>dflags := dflags c1 OR HWC_GEOMETRY_CHANGED env\<rparr>))
              else (s, Some c1)))"

text \<open>
  The call \<open>detectTrickMode(mCachedDisplays[DEVICE_PRIMARY])\<close> of \<open>analyzeContents\<close>:
  slot 0 of the cached array is read and written back. The source reads slot 0 without
  looking at the count; \<open>detect_true_two_slots\<close> below shows that the call is only
  reached with at least two slots, so the empty case here is never taken.
\<close>

definition detectTrickModePrimary :: "hwc_env \<Rightarrow> DisplayAnalyzer \<Rightarrow> DisplayAnalyzer" where
  "detectTrickModePrimary env s =
     (case mCachedDisplays s of
        [] \<Rightarrow> s
      | primary # others \<Rightarrow>
          (let (s1, primary') = detectTrickMode env primary s
           in s1\<lparr>mCachedDisplays := primary' # others\<rparr>))"

section \<open>Video extended mode\<close>

definition isVideoLayer :: "hwc_env \<Rightarrow> hwc_layer_1 \<Rightarrow> bool" where
  "isVideoLayer env layer =
     (if handle layer = 0 then False
      else (case lockDataBuffer env (handle layer) of
              None \<Rightarrow> False
            | Some buffer \<Rightarrow> isVideoFormat env (getFormat buffer)))"

text \<open>
  \<open>dstW\<close> and \<open>dstH\<close> are C \<open>int\<close> differences (read with \<open>sint\<close>; a difference
  that overflows, undefined in C, wraps around here); \<open>hdisplay\<close> and \<open>vdisplay\<close> are
  \<open>uint16_t\<close>, promoted to \<open>int\<close> before 1 is subtracted.
\<close>

definition dstW :: "hwc_layer_1 \<Rightarrow> int" where
  "dstW layer = sint (r_right (displayFrame layer) - r_left (displayFrame layer))"

definition dstH :: "hwc_layer_1 \<Rightarrow> int" where
  "dstH layer = sint (r_bottom (displayFrame layer) - r_top (displayFrame layer))"

definition isVideoEmbedded :: "hwc_env \<Rightarrow> hwc_layer_1 \<Rightarrow> bool" where
  "isVideoEmbedded env layer =
     (case getModeInfo env DEVICE_EXTERNAL of
        None \<Rightarrow> False
      | Some mode \<Rightarrow>
          (if dstW layer < uint (hdisplay mode) - 1 \<and> dstH layer < uint (vdisplay mode) - 1
           then True else False))"

text \<open>
  First loop of \<open>detectVideoExtendedMode\<close>: \<open>activeDisplays\<close> and \<open>geometryChanged\<close>
  are carried through the slots.
\<close>

fun countLoop ::
  "hwc_env \<Rightarrow> hwc_display_contents_1 option list \<Rightarrow> int \<times> bool \<Rightarrow> int \<times> bool" where
  "countLoop env [] acc = acc"
| "countLoop env (None # rest) acc = countLoop env rest acc"
| "countLoop env (Some content # rest) (activeDisplays, geometryChanged) =
     countLoop env rest
       (activeDisplays + 1,
        (if dflags content AND HWC_GEOMETRY_CHANGED env \<noteq> 0 then True else geometryChanged))"

text \<open>
  The loops over the layers of one list leave the last layer (the frame buffer target)
  out: \<open>j < (int)numHwLayers - 1\<close>, which is no layer at all for an empty list.
\<close>

fun primaryLoop :: "hwc_env \<Rightarrow> hwc_layer_1 list \<Rightarrow> 32 word option" where
  "primaryLoop env [] = None"
| "primaryLoop env [target] = None"
| "primaryLoop env (layer # rest) =
     (if isVideoLayer env layer then Some (handle layer) else primaryLoop env rest)"

fun layerLoop :: "32 word \<Rightarrow> hwc_layer_1 list \<Rightarrow> hwc_layer_1 option" where
  "layerLoop videoHandle [] = None"
| "layerLoop videoHandle [target] = None"
| "layerLoop videoHandle (layer # rest) =
     (if handle layer = videoHandle then Some layer else layerLoop videoHandle rest)"

text \<open>The loop over slots 1, 2, ...: the first layer with the video's handle, if any.\<close>

fun externalLoop :: "32 word \<Rightarrow> hwc_display_contents_1 option list \<Rightarrow> hwc_layer_1 option" where
  "externalLoop videoHandle [] = None"
| "externalLoop videoHandle (None # rest) = externalLoop videoHandle rest"
| "externalLoop videoHandle (Some content # rest) =
     (case layerLoop videoHandle (hwLayers content) of
        Some layer \<Rightarrow> Some layer
      | None \<Rightarrow> externalLoop videoHandle rest)"

text \<open>
  \<open>detectVideoExtendedMode\<close>. Slot 0 is read after \<open>activeDisplays\<close> was found to be
  at least 2, so the array is not empty there.
\<close>

definition detectVideoExtendedMode :: "hwc_env \<Rightarrow> DisplayAnalyzer \<Rightarrow> DisplayAnalyzer" where
  "detectVideoExtendedMode env s =
     (if \<not> mVideoPlaying s
      then s\<lparr>mVideoExtendedMode := False, mForceCloneMode := False\<rparr>
      else
        (let (activeDisplays, geometryChanged) = countLoop env (mCachedDisplays s) (0, False)
         in if activeDisplays \<le> 1 then s\<lparr>mVideoExtendedMode := False\<rparr>
            else if geometryChanged = False then s
            else
              (let s1 = s\<lparr>mVideoExtendedMode := False\<rparr>
               in case mCachedDisplays s of
                    [] \<Rightarrow> s1
                  | None # others \<Rightarrow> s1
                  | Some content # others \<Rightarrow>
                      (case primaryLoop env (hwLayers content) of
                         None \<Rightarrow> s1
                       | Some videoHandle \<Rightarrow>
                           (case externalLoop videoHandle others of
                              None \<Rightarrow> s1
                            | Some layer \<Rightarrow>
                                (if \<not> isVideoEmbedded env layer
                                 then s1\<lparr>mVideoExtendedMode := True\<rparr>
                                 else s1))))))"

section \<open>One frame\<close>

text \<open>
  \<open>analyzeContents(numDisplays, displays)\<close>: the result is the analyzer after the call
  and the caller's array as the call leaves it.
\<close>

definition analyzeContents ::
  "hwc_env \<Rightarrow> hwc_display_contents_1 option list \<Rightarrow> DisplayAnalyzer
     \<Rightarrow> DisplayAnalyzer \<times> hwc_display_contents_1 option list" where
  "analyzeContents env displays s =
     (let s1 = s\<lparr>mCachedDisplays := displays\<rparr>;
          s2 = handlePendingEvents env s1;
          s3 = (if mBlankDevice s2 then blankSecondaryDevice env s2 else s2);
          s4 = (if mEnableVideoExtendedMode s3
                then (let s5 = detectVideoExtendedMode env s3
                      in if mVideoExtendedMode s5 then detectTrickModePrimary env s5 else s5)
                else s3)
      in (s4\<lparr>mCachedDisplays := []\<rparr>, mCachedDisplays s4))"

section \<open>Vocabulary of the properties\<close>

text \<open>
  Notions the properties are stated with; none of them is part of the source. The
  number of slots holding a display list; whether a slot (or any slot) has
  \<open>HWC_GEOMETRY_CHANGED\<close> set; the analyzer as \<open>analyzeContents\<close> has it when it
  reaches the test of \<open>mEnableVideoExtendedMode\<close> (the array installed, the events
  handled, the secondary devices blanked if \<open>mBlankDevice\<close> is set); whether a layer
  (or some layer of a list) carries \<open>HWC_TRICK_MODE\<close>; whether an event is a hot-plug
  event; what a blanked or un-blanked layer looks like, and an array all of whose
  secondary layers but the frame buffer targets look so; the layer counts of an array;
  and the layers of the secondary lists, targets left out, in slot order.
\<close>

definition activeDisplays :: "hwc_display_contents_1 option list \<Rightarrow> nat" where
  "activeDisplays displays = length (filter (\<lambda>d. d \<noteq> None) displays)"

definition reportsGeometry :: "hwc_env \<Rightarrow> hwc_display_contents_1 option \<Rightarrow> bool" where
  "reportsGeometry env d =
     (case d of None \<Rightarrow> False | Some c \<Rightarrow> dflags c AND HWC_GEOMETRY_CHANGED env \<noteq> 0)"

definition geometryReported :: "hwc_env \<Rightarrow> hwc_display_contents_1 option list \<Rightarrow> bool" where
  "geometryReported env displays = list_ex (reportsGeometry env) displays"

definition beforeDetection ::
  "hwc_env \<Rightarrow> hwc_display_contents_1 option list \<Rightarrow> DisplayAnalyzer \<Rightarrow> DisplayAnalyzer" where
  "beforeDetection env displays s =
     (let s2 = handlePendingEvents env (s\<lparr>mCachedDisplays := displays\<rparr>)
      in if mBlankDevice s2 then blankSecondaryDevice env s2 else s2)"

definition trickFlagged :: "hwc_env \<Rightarrow> hwc_layer_1 \<Rightarrow> bool" where
  "trickFlagged env layer = (flags layer AND HWC_TRICK_MODE env \<noteq> 0)"

definition trickDetected :: "hwc_env \<Rightarrow> hwc_display_contents_1 \<Rightarrow> bool" where
  "trickDetected env c = list_ex (trickFlagged env) (hwLayers c)"

definition isHotplug :: "Event \<Rightarrow> bool" where
  "isHotplug e = (case e of HOTPLUG_EVENT connected \<Rightarrow> True | _ \<Rightarrow> False)"

definition blankedLayer :: "hwc_env \<Rightarrow> bool \<Rightarrow> hwc_layer_1 \<Rightarrow> bool" where
  "blankedLayer env blank layer =
     (if blank
      then hints layer AND HWC_HINT_CLEAR_FB env = HWC_HINT_CLEAR_FB env
           \<and> flags layer AND HWC_SKIP_LAYER env = 0
           \<and> compositionType layer = HWC_OVERLAY env
      else hints layer AND HWC_HINT_CLEAR_FB env = 0
           \<and> compositionType layer = HWC_FRAMEBUFFER env)"

definition blankedSecondaries ::
  "hwc_env \<Rightarrow> bool \<Rightarrow> hwc_display_contents_1 option list \<Rightarrow> bool" where
  "blankedSecondaries env blank displays =
     list_all (\<lambda>d. case d of
                     None \<Rightarrow> True
                   | Some c \<Rightarrow> list_all (blankedLayer env blank) (butlast (hwLayers c)))
       (tl displays)"

definition layerCounts :: "hwc_display_contents_1 option list \<Rightarrow> nat option list" where
  "layerCounts displays = map (map_option (\<lambda>c. length (hwLayers c))) displays"

definition secondaryLayers :: "hwc_display_contents_1 option list \<Rightarrow> hwc_layer_1 list" where
  "secondaryLayers others =
     concat (map (\<lambda>d. case d of None \<Rightarrow> [] | Some c \<Rightarrow> butlast (hwLayers c)) others)"

section \<open>The frame in the order the specification gives\<close>

text \<open>
  Not from the source: the frame as the specification orders it, with trick mode
  detection on the primary list first and extended mode detection after it. It is only
  compared with \<open>analyzeContents\<close>.
\<close>

definition analyzeContents_spec_order ::
  "hwc_env \<Rightarrow> hwc_display_contents_1 option list \<Rightarrow> DisplayAnalyzer
     \<Rightarrow> DisplayAnalyzer \<times> hwc_display_contents_1 option list" where
  "analyzeContents_spec_order env displays s =
     (let s1 = s\<lparr>mCachedDisplays := displays\<rparr>;
          s2 = handlePendingEvents env s1;
          s3 = (if mBlankDevice s2 then blankSecondaryDevice env s2 else s2);
          s4 = (if mEnableVideoExtendedMode s3
                then detectVideoExtendedMode env (detectTrickModePrimary env s3)
                else s3)
      in (s4\<lparr>mCachedDisplays := []\<rparr>, mCachedDisplays s4))"

section \<open>Sample frames\<close>

text \<open>
  A sample environment (mode 1920 x 1080 on the external device, one video buffer with
  handle 7), layers, display lists of one layer and a frame buffer target, and analyzer
  states reached from \<open>initialize\<close> through the public entry points.
\<close>

definition ex_env :: hwc_env where
  "ex_env =
     \<lparr> HWC_GEOMETRY_CHANGED = 1, HWC_TRICK_MODE = 4, HWC_SKIP_LAYER = 1,
       HWC_HINT_CLEAR_FB = 2, HWC_FRAMEBUFFER = 0, HWC_OVERLAY = 1,
       lockDataBuffer = (\<lambda>h. if h = 7 then Some \<lparr>getFormat = 256\<rparr> else None),
       isVideoFormat = (\<lambda>f. f = 256),
       getModeInfo = (\<lambda>d. if d = DEVICE_EXTERNAL
                            then Some \<lparr>hdisplay = 1920, vdisplay = 1080\<rparr> else None) \<rparr>"

definition ex_layer :: "32 word \<Rightarrow> 32 word \<Rightarrow> 32 word \<Rightarrow> 32 word \<Rightarrow> hwc_layer_1" where
  "ex_layer h f w ht =
     \<lparr> compositionType = 0, hints = 0, flags = f, handle = h,
       displayFrame = \<lparr>r_left = 0, r_top = 0, r_right = w, r_bottom = ht\<rparr> \<rparr>"

definition ex_content :: "32 word \<Rightarrow> hwc_layer_1 \<Rightarrow> hwc_display_contents_1" where
  "ex_content g layer = \<lparr> dflags = g, hwLayers = [layer, ex_layer 0 0 1920 1080] \<rparr>"

definition ex_playing :: DisplayAnalyzer where
  "ex_playing = postVideoEvent False True (initialize (Some 1) constructor)"

definition ex_extended :: DisplayAnalyzer where
  "ex_extended =
     fst (analyzeContents ex_env
            [Some (ex_content 1 (ex_layer 7 0 1920 1080)), Some (ex_content 1 (ex_layer 7 0 1920 1080))]
            ex_playing)"

definition ex_disabled :: DisplayAnalyzer where
  "ex_disabled = snd (isVideoExtendedModeEnabled (Some 0) ex_extended)"

definition ex_trick :: DisplayAnalyzer where
  "ex_trick =
     fst (analyzeContents ex_env
            [Some (ex_content 1 (ex_layer 7 4 1920 1080)), Some (ex_content 1 (ex_layer 7 0 1920 1080))]
            ex_playing)"


definition ex_env_nomode :: hwc_env where
  "ex_env_nomode = ex_env\<lparr>getModeInfo := (\<lambda>d. None)\<rparr>"

definition ex_frame_trick :: "hwc_display_contents_1 option list" where
  "ex_frame_trick =
     [Some (ex_content 0 (ex_layer 7 4 1920 1080)), Some (ex_content 0 (ex_layer 9 0 1920 1080))]"

definition ex_frame :: "32 word \<Rightarrow> 32 word \<Rightarrow> 32 word \<Rightarrow> hwc_display_contents_1 option list" where
  "ex_frame g w h =
     [Some (ex_content g (ex_layer 7 0 1920 1080)), Some (ex_content g (ex_layer 7 0 w h))]"

definition ex_frame_skip :: "hwc_display_contents_1 option list" where
  "ex_frame_skip =
     [Some (ex_content 0 (ex_layer 7 1 1920 1080)), Some (ex_content 0 (ex_layer 7 1 1920 1080))]"

section \<open>Basic facts\<close>

lemma countLoop_eq:
  "countLoop env ds (n, g) = (n + int (activeDisplays ds), g \<or> geometryReported env ds)"
proof (induction ds arbitrary: n g)
  case Nil
  then show ?case by (simp add: activeDisplays_def geometryReported_def)
next
  case (Cons d ds)
  then show ?case
    by (cases d) (auto simp: activeDisplays_def geometryReported_def reportsGeometry_def)
qed

lemma detect_false_few:
  "activeDisplays (mCachedDisplays s) < 2 \<Longrightarrow> \<not> mVideoExtendedMode (detectVideoExtendedMode env s)"
  by (simp add: detectVideoExtendedMode_def countLoop_eq)

lemma detect_true_two_slots:
  assumes "mVideoExtendedMode (detectVideoExtendedMode env s)"
  shows "2 \<le> activeDisplays (mCachedDisplays s)" and "2 \<le> length (mCachedDisplays s)"
proof -
  show a: "2 \<le> activeDisplays (mCachedDisplays s)"
    using assms detect_false_few [of s env] by linarith
  have "activeDisplays (mCachedDisplays s) \<le> length (mCachedDisplays s)"
    by (simp add: activeDisplays_def)
  with a show "2 \<le> length (mCachedDisplays s)" by linarith
qed

lemma blankContent_None [simp]: "(blankContent env b d = None) = (d = None)"
  by (simp add: blankContent_def split: option.splits)

lemma markGeometryChanged_None [simp]: "(markGeometryChanged env d = None) = (d = None)"
  by (simp add: markGeometryChanged_def split: option.splits)

lemma activeDisplays_Cons: "activeDisplays (d # ds) = (if d = None then 0 else 1) + activeDisplays ds"
  by (simp add: activeDisplays_def)

lemma activeDisplays_map_blank:
  "activeDisplays (map (blankContent env b) ds) = activeDisplays ds"
proof (induction ds)
  case Nil
  then show ?case by simp
next
  case (Cons d ds)
  then show ?case by (cases d) (simp_all add: activeDisplays_def blankContent_def)
qed

lemma activeDisplays_map_mark:
  "activeDisplays (map (markGeometryChanged env) ds) = activeDisplays ds"
proof (induction ds)
  case Nil
  then show ?case by simp
next
  case (Cons d ds)
  then show ?case by (cases d) (simp_all add: activeDisplays_def markGeometryChanged_def)
qed

lemma blankSecondaryDevice_active:
  "activeDisplays (mCachedDisplays (blankSecondaryDevice env s)) = activeDisplays (mCachedDisplays s)"
  by (simp add: blankSecondaryDevice_def activeDisplays_Cons activeDisplays_map_blank split: list.splits)

lemma blankSecondaryDevice_fields [simp]:
  "mEnableVideoExtendedMode (blankSecondaryDevice env s) = mEnableVideoExtendedMode s"
  "mVideoExtendedMode (blankSecondaryDevice env s) = mVideoExtendedMode s"
  "mForceCloneMode (blankSecondaryDevice env s) = mForceCloneMode s"
  "mVideoPlaying (blankSecondaryDevice env s) = mVideoPlaying s"
  "mBlankDevice (blankSecondaryDevice env s) = mBlankDevice s"
  "mPendingEvents (blankSecondaryDevice env s) = mPendingEvents s"
  "calls (blankSecondaryDevice env s) = calls s"
  by (simp_all add: blankSecondaryDevice_def split: list.splits)

lemma handleEvent_active:
  "activeDisplays (mCachedDisplays (handleEvent env e s)) = activeDisplays (mCachedDisplays s)"
  by (cases e)
     (simp_all add: handleEvent_def handleHotplugEvent_def handleVideoEvent_def
        handleBlankEvent_def Let_def blankSecondaryDevice_active activeDisplays_Cons
        activeDisplays_map_blank activeDisplays_map_mark split: list.splits)

lemma handleEvent_fields [simp]:
  "mEnableVideoExtendedMode (handleEvent env e s) = mEnableVideoExtendedMode s"
  "mVideoExtendedMode (handleEvent env e s) = mVideoExtendedMode s"
  "mForceCloneMode (handleEvent env e s) = mForceCloneMode s"
  "mPendingEvents (handleEvent env e s) = mPendingEvents s"
  by (cases e; simp add: handleEvent_def handleHotplugEvent_def handleVideoEvent_def
        handleBlankEvent_def Let_def split: list.splits)+

lemma handlePendingEvents_fields:
  "mEnableVideoExtendedMode (handlePendingEvents env s) = mEnableVideoExtendedMode s
   \<and> mVideoExtendedMode (handlePendingEvents env s) = mVideoExtendedMode s
   \<and> mForceCloneMode (handlePendingEvents env s) = mForceCloneMode s
   \<and> activeDisplays (mCachedDisplays (handlePendingEvents env s)) = activeDisplays (mCachedDisplays s)
   \<and> mPendingEvents (handlePendingEvents env s) = []"
proof (induction env s rule: handlePendingEvents.induct)
  case (1 env s)
  show ?case
  proof (cases "length (mPendingEvents s) = 0")
    case True
    then show ?thesis by (simp add: handlePendingEvents.simps [of env s])
  next
    case False
    from "1" [OF False] False show ?thesis
      by (simp add: handlePendingEvents.simps [of env s] handleEvent_active)
  qed
qed

lemma beforeDetection_fields:
  "mEnableVideoExtendedMode (beforeDetection env displays s) = mEnableVideoExtendedMode s"
  "mVideoExtendedMode (beforeDetection env displays s) = mVideoExtendedMode s"
  "mForceCloneMode (beforeDetection env displays s) = mForceCloneMode s"
  "activeDisplays (mCachedDisplays (beforeDetection env displays s)) = activeDisplays displays"
  "mPendingEvents (beforeDetection env displays s) = []"
  by (simp_all add: beforeDetection_def Let_def handlePendingEvents_fields
        blankSecondaryDevice_active)

lemma detectTrickModePrimary_ext [simp]:
  "mVideoExtendedMode (detectTrickModePrimary env s) = mVideoExtendedMode s"
  by (simp add: detectTrickModePrimary_def detectTrickMode_def Let_def
        split: list.splits option.splits prod.splits)

lemma analyzeContents_unfold:
  "analyzeContents env displays s =
     (let s3 = beforeDetection env displays s;
          s4 = (if mEnableVideoExtendedMode s3
                then (let s5 = detectVideoExtendedMode env s3
                      in if mVideoExtendedMode s5 then detectTrickModePrimary env s5 else s5)
                else s3)
      in (s4\<lparr>mCachedDisplays := []\<rparr>, mCachedDisplays s4))"
  by (simp add: analyzeContents_def beforeDetection_def Let_def)

lemma handlePendingEvents_Nil:
  "mPendingEvents s = [] \<Longrightarrow> handlePendingEvents env s = s"
  by (simp add: handlePendingEvents.simps [of env s])

lemma handlePendingEvents_Cons:
  "mPendingEvents s = e # es \<Longrightarrow>
   handlePendingEvents env s = handlePendingEvents env (handleEvent env e (s\<lparr>mPendingEvents := es\<rparr>))"
  by (simp add: handlePendingEvents.simps [of env s])

lemmas ex_defs = ex_env_def ex_layer_def ex_content_def ex_playing_def
  postVideoEvent_def postEvent_def initialize_def readEnableProperty_def constructor_def
  analyzeContents_def handlePendingEvents_Nil handlePendingEvents_Cons handleEvent_def
  handleVideoEvent_def handleBlankEvent_def handleHotplugEvent_def blankSecondaryDevice_def
  detectVideoExtendedMode_def detectTrickModePrimary_def detectTrickMode_def
  isVideoLayer_def isVideoEmbedded_def dstW_def dstH_def Let_def

lemma ex_extended_eq:
  "ex_extended = (initialize (Some 1) constructor)\<lparr>mVideoPlaying := True, mVideoExtendedMode := True\<rparr>"
  by (simp add: ex_extended_def ex_defs)

lemma handleEvent_queue:
  "handleEvent env e (s\<lparr>mPendingEvents := q\<rparr>) = (handleEvent env e s)\<lparr>mPendingEvents := q\<rparr>"
  by (cases e)
     (simp_all add: handleEvent_def handleHotplugEvent_def handleVideoEvent_def
        handleBlankEvent_def blankSecondaryDevice_def Let_def split: list.splits)

lemma handlePendingEvents_foldl:
  "handlePendingEvents env s =
     foldl (\<lambda>s e. handleEvent env e s) (s\<lparr>mPendingEvents := []\<rparr>) (mPendingEvents s)"
proof (induction "mPendingEvents s" arbitrary: s)
  case Nil
  then show ?case by (simp add: handlePendingEvents_Nil)
next
  case (Cons e es)
  let ?s' = "handleEvent env e (s\<lparr>mPendingEvents := es\<rparr>)"
  have q: "es = mPendingEvents ?s'" by simp
  have "handlePendingEvents env s = handlePendingEvents env ?s'"
    using Cons.hyps(2) by (simp add: handlePendingEvents_Cons [of s e es])
  also have "\<dots> = foldl (\<lambda>s e. handleEvent env e s) (?s'\<lparr>mPendingEvents := []\<rparr>) es"
    using Cons.hyps(1) [OF q] by simp
  also have "?s'\<lparr>mPendingEvents := []\<rparr> = handleEvent env e (s\<lparr>mPendingEvents := []\<rparr>)"
    by (simp add: handleEvent_queue)
  finally show ?case using Cons.hyps(2) [symmetric] by simp
qed

lemma postEvent_foldl:
  "foldl (\<lambda>s e. postEvent e s) s es = s\<lparr>mPendingEvents := mPendingEvents s @ es\<rparr>"
  by (induction es arbitrary: s) (simp_all add: postEvent_def)

lemma handleEvent_calls:
  "calls (handleEvent env e s) = calls s @ (if isHotplug e then [ResetVsyncSource] else [])"
  by (cases e)
     (simp_all add: handleEvent_def handleHotplugEvent_def handleVideoEvent_def
        handleBlankEvent_def Let_def isHotplug_def split: list.splits)

lemma foldl_handleEvent_calls:
  "calls (foldl (\<lambda>s e. handleEvent env e s) s es) =
     calls s @ map (\<lambda>e. ResetVsyncSource) (filter isHotplug es)"
  by (induction es arbitrary: s) (simp_all add: handleEvent_calls)

lemma trickLoop_detected: "fst (trickLoop env ls) = list_ex (trickFlagged env) ls"
  by (induction ls) (auto simp: trickFlagged_def split: prod.splits)

lemma trickLoop_again: "trickLoop env (snd (trickLoop env ls)) = trickLoop env ls"
  by (induction ls) (auto split: prod.splits)

lemma trickLoop_flags: "map flags (snd (trickLoop env ls)) = map flags ls"
  by (induction ls) (auto split: prod.splits)

lemma detectTrickMode_force:
  "mForceCloneMode (fst (detectTrickMode env (Some c) s)) = trickDetected env c"
  using trickLoop_detected [of env "hwLayers c"]
  by (auto simp: detectTrickMode_def trickDetected_def Let_def split: prod.splits)

lemma detectTrickMode_None: "detectTrickMode env None s = (s, None)"
  by (simp add: detectTrickMode_def)

lemma detectTrickMode_change:
  assumes "trickDetected env c \<noteq> mForceCloneMode s"
  shows "detectTrickMode env (Some c) s =
           (s\<lparr>mForceCloneMode := trickDetected env c\<rparr>,
            Some \<lparr>dflags = dflags c OR HWC_GEOMETRY_CHANGED env,
                  hwLayers = snd (trickLoop env (hwLayers c))\<rparr>)"
  using assms trickLoop_detected [of env "hwLayers c"]
  by (auto simp: detectTrickMode_def trickDetected_def Let_def split: prod.splits)

lemma detectTrickMode_same:
  assumes "trickDetected env c = mForceCloneMode s"
  shows "detectTrickMode env (Some c) s =
           (s, Some \<lparr>dflags = dflags c, hwLayers = snd (trickLoop env (hwLayers c))\<rparr>)"
  using assms trickLoop_detected [of env "hwLayers c"]
  by (auto simp: detectTrickMode_def trickDetected_def Let_def split: prod.splits)

lemma trickDetected_after:
  "trickDetected env \<lparr>dflags = g, hwLayers = snd (trickLoop env ls)\<rparr> = list_ex (trickFlagged env) ls"
  using trickLoop_detected [of env "snd (trickLoop env ls)"]
  by (simp add: trickDetected_def trickLoop_again trickLoop_detected)

lemma blankSecondaryDevice_take:
  "take (Suc 0) (mCachedDisplays (blankSecondaryDevice env s)) = take (Suc 0) (mCachedDisplays s)"
  by (simp add: blankSecondaryDevice_def split: list.splits)

lemma handleEvent_take:
  "take (Suc 0) (mCachedDisplays (handleEvent env e s)) = take (Suc 0) (mCachedDisplays s)"
  by (cases e)
     (simp_all add: handleEvent_def handleHotplugEvent_def handleVideoEvent_def
        handleBlankEvent_def blankSecondaryDevice_def Let_def split: list.splits)

lemma handlePendingEvents_take:
  "take (Suc 0) (mCachedDisplays (handlePendingEvents env s)) = take (Suc 0) (mCachedDisplays s)"
proof (induction "mPendingEvents s" arbitrary: s)
  case Nil
  then show ?case by (simp add: handlePendingEvents_Nil)
next
  case (Cons e es)
  let ?s' = "handleEvent env e (s\<lparr>mPendingEvents := es\<rparr>)"
  have q: "es = mPendingEvents ?s'" by simp
  have "handlePendingEvents env s = handlePendingEvents env ?s'"
    using Cons.hyps(2) by (simp add: handlePendingEvents_Cons [of s e es])
  then show ?case using Cons.hyps(1) [OF q] by (simp add: handleEvent_take)
qed

lemma beforeDetection_take:
  "take (Suc 0) (mCachedDisplays (beforeDetection env displays s)) = take (Suc 0) displays"
  by (simp add: beforeDetection_def Let_def blankSecondaryDevice_take handlePendingEvents_take)

lemma beforeDetection_primary:
  "\<exists>others'. mCachedDisplays (beforeDetection env (primary # others) s) = primary # others'"
  using beforeDetection_take [of env "primary # others" s]
  by (cases "mCachedDisplays (beforeDetection env (primary # others) s)") simp_all

lemma detect_displays [simp]:
  "mCachedDisplays (detectVideoExtendedMode env s) = mCachedDisplays s"
  by (simp add: detectVideoExtendedMode_def Let_def split: prod.splits list.splits option.splits)

lemma detect_not_playing:
  "\<not> mVideoPlaying s \<Longrightarrow>
   detectVideoExtendedMode env s = s\<lparr>mVideoExtendedMode := False, mForceCloneMode := False\<rparr>"
  by (simp add: detectVideoExtendedMode_def)

lemma beforeDetection_playing:
  "mVideoPlaying (beforeDetection env displays s) =
   mVideoPlaying (handlePendingEvents env (s\<lparr>mCachedDisplays := displays\<rparr>))"
  by (simp add: beforeDetection_def Let_def)

lemma ex_trick_eq:
  "ex_trick = (initialize (Some 1) constructor)
       \<lparr>mVideoPlaying := True, mVideoExtendedMode := True, mForceCloneMode := True\<rparr>"
  by (simp add: ex_trick_def ex_defs)

lemma blankLayer_blanked: "blankedLayer env blank (blankLayer env blank layer)"
  by (simp add: blankedLayer_def blankLayer_def word_ao_absorbs word_bw_assocs)

lemma blankLayers_length: "length (blankLayers env blank ls) = length ls"
  by (induction env blank ls rule: blankLayers.induct) simp_all

lemma blankLayers_Nil: "(blankLayers env blank ls = []) = (ls = [])"
  using blankLayers_length [of env blank ls] by (metis length_0_conv)

lemma blankLayers_butlast:
  "butlast (blankLayers env blank ls) = map (blankLayer env blank) (butlast ls)"
  by (induction env blank ls rule: blankLayers.induct) (simp_all add: blankLayers_Nil)

lemma blankLayers_last: "ls \<noteq> [] \<Longrightarrow> last (blankLayers env blank ls) = last ls"
  by (induction env blank ls rule: blankLayers.induct) (simp_all add: blankLayers_Nil)

lemma blankLayers_blanked:
  "list_all (blankedLayer env blank) (butlast (blankLayers env blank ls))"
  by (simp add: blankLayers_butlast list_all_iff blankLayer_blanked)

lemma blankContent_blanked:
  "list_all (\<lambda>d. case d of None \<Rightarrow> True
        | Some c \<Rightarrow> list_all (blankedLayer env blank) (butlast (hwLayers c)))
     (map (blankContent env blank) others)"
  by (induction others)
     (simp_all add: blankContent_def blankLayers_blanked split: option.splits)

lemma layerCounts_blank:
  "layerCounts (map (blankContent env blank) others) = layerCounts others"
  by (induction others)
     (simp_all add: layerCounts_def blankContent_def blankLayers_length split: option.splits)

lemma layerCounts_mark:
  "layerCounts (map (markGeometryChanged env) others) = layerCounts others"
  by (induction others)
     (simp_all add: layerCounts_def markGeometryChanged_def split: option.splits)

lemma layerCounts_Cons: "layerCounts (d # ds) = map_option (\<lambda>c. length (hwLayers c)) d # layerCounts ds"
  by (simp add: layerCounts_def)

lemma blankSecondaryDevice_blanked:
  "blankedSecondaries env (mBlankDevice s) (mCachedDisplays (blankSecondaryDevice env s))"
  by (simp add: blankSecondaryDevice_def blankedSecondaries_def blankContent_blanked
        split: list.splits)

lemma blankSecondaryDevice_counts:
  "layerCounts (mCachedDisplays (blankSecondaryDevice env s)) = layerCounts (mCachedDisplays s)"
  by (simp add: blankSecondaryDevice_def layerCounts_Cons layerCounts_blank split: list.splits)

lemma handleBlankEvent_blanked:
  "blankedSecondaries env blank (mCachedDisplays (handleBlankEvent env blank s))"
  by (simp add: handleBlankEvent_def blankSecondaryDevice_def blankedSecondaries_def
        blankContent_blanked Let_def split: list.splits)

lemma handleBlankEvent_counts:
  "layerCounts (mCachedDisplays (handleBlankEvent env blank s)) = layerCounts (mCachedDisplays s)"
  by (simp add: handleBlankEvent_def blankSecondaryDevice_def layerCounts_Cons
        layerCounts_blank layerCounts_mark Let_def split: list.splits)

lemma handleBlankEvent_take:
  "take (Suc 0) (mCachedDisplays (handleBlankEvent env blank s)) = take (Suc 0) (mCachedDisplays s)"
  by (simp add: handleBlankEvent_def blankSecondaryDevice_def Let_def split: list.splits)

lemma detectTrickModePrimary_tl:
  "tl (mCachedDisplays (detectTrickModePrimary env s)) = tl (mCachedDisplays s)"
  by (simp add: detectTrickModePrimary_def split: list.splits prod.splits)

lemma analyzeContents_tl:
  "tl (snd (analyzeContents env displays s)) = tl (mCachedDisplays (beforeDetection env displays s))"
  by (simp add: analyzeContents_unfold Let_def detectTrickModePrimary_tl)

lemma primaryLoop_find:
  "primaryLoop env ls = map_option handle (find (isVideoLayer env) (butlast ls))"
  by (induction env ls rule: primaryLoop.induct) simp_all

lemma layerLoop_find:
  "layerLoop videoHandle ls = find (\<lambda>l. handle l = videoHandle) (butlast ls)"
  by (induction videoHandle ls rule: layerLoop.induct) simp_all

lemma find_app:
  "find P (xs @ ys) = (case find P xs of None \<Rightarrow> find P ys | Some x \<Rightarrow> Some x)"
  by (induction xs) simp_all

lemma externalLoop_find:
  "externalLoop videoHandle others = find (\<lambda>l. handle l = videoHandle) (secondaryLayers others)"
proof (induction videoHandle others rule: externalLoop.induct)
  case (1 videoHandle)
  then show ?case by (simp add: secondaryLayers_def)
next
  case (2 videoHandle rest)
  then show ?case by (simp add: secondaryLayers_def)
next
  case (3 videoHandle content rest)
  then show ?case
    by (cases "layerLoop videoHandle (hwLayers content)")
       (simp_all add: secondaryLayers_def layerLoop_find find_app)
qed

lemma isVideoEmbedded_iff:
  "isVideoEmbedded env layer =
     (\<exists>mode. getModeInfo env DEVICE_EXTERNAL = Some mode
        \<and> dstW layer < uint (hdisplay mode) - 1 \<and> dstH layer < uint (vdisplay mode) - 1)"
  by (simp add: isVideoEmbedded_def split: option.splits)

lemma detect_recompute:
  assumes "mVideoPlaying s" and "2 \<le> activeDisplays (mCachedDisplays s)"
    and "geometryReported env (mCachedDisplays s)"
    and "mCachedDisplays s = Some content # others"
    and "primaryLoop env (hwLayers content) = Some videoHandle"
    and "externalLoop videoHandle others = Some layer"
  shows "detectVideoExtendedMode env s = s\<lparr>mVideoExtendedMode := \<not> isVideoEmbedded env layer\<rparr>"
proof -
  have c: "countLoop env (mCachedDisplays s) (0, False)
        = (int (activeDisplays (mCachedDisplays s)), True)"
    using assms(3) by (simp add: countLoop_eq)
  have n: "\<not> int (activeDisplays (mCachedDisplays s)) \<le> 1" using assms(2) by simp
  show ?thesis
    unfolding detectVideoExtendedMode_def c using assms(1) n
    by (simp add: assms(4,5,6) Let_def)
qed

lemma detect_no_video:
  assumes "mVideoPlaying s" and "2 \<le> activeDisplays (mCachedDisplays s)"
    and "geometryReported env (mCachedDisplays s)"
    and "mCachedDisplays s = Some content # others"
    and "primaryLoop env (hwLayers content) = None"
  shows "detectVideoExtendedMode env s = s\<lparr>mVideoExtendedMode := False\<rparr>"
proof -
  have c: "countLoop env (mCachedDisplays s) (0, False)
        = (int (activeDisplays (mCachedDisplays s)), True)"
    using assms(3) by (simp add: countLoop_eq)
  have n: "\<not> int (activeDisplays (mCachedDisplays s)) \<le> 1" using assms(2) by simp
  show ?thesis
    unfolding detectVideoExtendedMode_def c using assms(1) n
    by (simp add: assms(4,5) Let_def)
qed

lemma detect_retained:
  assumes "mVideoPlaying s" and "2 \<le> activeDisplays (mCachedDisplays s)"
    and "\<not> geometryReported env (mCachedDisplays s)"
  shows "detectVideoExtendedMode env s = s"
proof -
  have c: "countLoop env (mCachedDisplays s) (0, False)
        = (int (activeDisplays (mCachedDisplays s)), False)"
    using assms(3) by (simp add: countLoop_eq)
  have n: "\<not> int (activeDisplays (mCachedDisplays s)) \<le> 1" using assms(2) by simp
  show ?thesis
    unfolding detectVideoExtendedMode_def c using assms(1) n by simp
qed

lemma primaryLoop_unlockable:
  "\<forall>l\<in>set (butlast ls). lockDataBuffer env (handle l) = None \<Longrightarrow> primaryLoop env ls = None"
  by (induction env ls rule: primaryLoop.induct) (simp_all add: isVideoLayer_def)

lemma handleEvent_no_blank:
  "\<forall>b. e \<noteq> BLANK_EVENT b \<Longrightarrow> mCachedDisplays (handleEvent env e s) = mCachedDisplays s"
  by (cases e) (auto simp: handleEvent_def handleHotplugEvent_def handleVideoEvent_def)

lemma handlePendingEvents_no_blank:
  "\<forall>b. BLANK_EVENT b \<notin> set (mPendingEvents s) \<Longrightarrow>
   mCachedDisplays (handlePendingEvents env s) = mCachedDisplays s"
proof (induction "mPendingEvents s" arbitrary: s)
  case Nil
  then show ?case by (simp add: handlePendingEvents_Nil)
next
  case (Cons e es)
  let ?s' = "handleEvent env e (s\<lparr>mPendingEvents := es\<rparr>)"
  have q: "es = mPendingEvents ?s'" by simp
  have nb: "\<forall>b. e \<noteq> BLANK_EVENT b" "\<forall>b. BLANK_EVENT b \<notin> set (mPendingEvents ?s')"
    using Cons.prems Cons.hyps(2) [symmetric] by auto
  have "handlePendingEvents env s = handlePendingEvents env ?s'"
    using Cons.hyps(2) by (simp add: handlePendingEvents_Cons [of s e es])
  then show ?case
    using Cons.hyps(1) [OF q nb(2)] by (simp add: handleEvent_no_blank [OF nb(1)])
qed

lemma geometryReported_Cons:
  "geometryReported env (d # ds) = (reportsGeometry env d \<or> geometryReported env ds)"
  by (simp add: geometryReported_def)

lemma geometryReported_blank:
  "geometryReported env (map (blankContent env blank) ds) = geometryReported env ds"
  by (induction ds)
     (simp_all add: geometryReported_def reportsGeometry_def blankContent_def split: option.splits)

lemma blankSecondaryDevice_geometry:
  "geometryReported env (mCachedDisplays (blankSecondaryDevice env s))
     = geometryReported env (mCachedDisplays s)"
  by (simp add: blankSecondaryDevice_def geometryReported_Cons geometryReported_blank
        split: list.splits)

lemma beforeDetection_geometry:
  "\<forall>b. BLANK_EVENT b \<notin> set (mPendingEvents s) \<Longrightarrow>
   geometryReported env (mCachedDisplays (beforeDetection env displays s))
     = geometryReported env displays"
  by (simp add: beforeDetection_def Let_def blankSecondaryDevice_geometry
        handlePendingEvents_no_blank)

lemma ex_disabled_eq:
  "ex_disabled = (initialize (Some 1) constructor)
      \<lparr>mVideoPlaying := True, mVideoExtendedMode := True, mEnableVideoExtendedMode := False\<rparr>"
  by (simp add: ex_disabled_def isVideoExtendedModeEnabled_def ex_extended_eq
        readEnableProperty_def initialize_def constructor_def)

lemmas ex_more = ex_frame_def ex_frame_skip_def ex_frame_trick_def ex_env_nomode_def
  activeDisplays_def geometryReported_def reportsGeometry_def beforeDetection_def
  blankContent_def blankLayer_def markGeometryChanged_def

section \<open>Fewer than two active displays\<close>

text \<open>
  C1 (as amended). For every \<open>analyzeContents\<close> call made while
  \<open>mEnableVideoExtendedMode\<close> is set, \<open>mVideoExtendedMode\<close> is false after the call
  whenever fewer than two slots of the frame hold a display list, whatever value it
  held before the call and whatever events were pending.
\<close>

theorem C1_few_displays_no_extended_mode:
  assumes "mEnableVideoExtendedMode s" and "activeDisplays displays < 2"
  shows "\<not> mVideoExtendedMode (fst (analyzeContents env displays s))"
proof -
  let ?s3 = "beforeDetection env displays s"
  have "activeDisplays (mCachedDisplays ?s3) < 2"
    using assms(2) by (simp add: beforeDetection_fields)
  then have "\<not> mVideoExtendedMode (detectVideoExtendedMode env ?s3)"
    by (rule detect_false_few)
  then show ?thesis
    using assms(1) by (simp add: analyzeContents_unfold Let_def beforeDetection_fields)
qed

theorem C1_few_displays_witness:
  "mEnableVideoExtendedMode ex_extended
   \<and> mVideoExtendedMode ex_extended
   \<and> activeDisplays [Some (ex_content 0 (ex_layer 7 0 1920 1080))] < 2
   \<and> \<not> mVideoExtendedMode
         (fst (analyzeContents ex_env [Some (ex_content 0 (ex_layer 7 0 1920 1080))] ex_extended))"
proof -
  have a: "mEnableVideoExtendedMode ex_extended"
    by (simp add: ex_extended_eq initialize_def readEnableProperty_def)
  have b: "activeDisplays [Some (ex_content 0 (ex_layer 7 0 1920 1080))] < 2"
    by (simp add: activeDisplays_def)
  have c: "mVideoExtendedMode ex_extended"
    by (simp add: ex_extended_eq)
  from C1_few_displays_no_extended_mode [OF a b, of ex_env] a b c show ?thesis by simp
qed

text \<open>
  The claim as written, for every call: it fails once the support switch has been
  turned off (the switch is read again by \<open>isVideoExtendedModeEnabled\<close>) while
  \<open>mVideoExtendedMode\<close> was set; a frame with one display then leaves it set.
\<close>

theorem C1_disabled_counterexample:
  "activeDisplays [Some (ex_content 0 (ex_layer 7 0 1920 1080))] < 2
   \<and> mVideoExtendedMode
         (fst (analyzeContents ex_env [Some (ex_content 0 (ex_layer 7 0 1920 1080))] ex_disabled))"
  by (simp add: ex_disabled_def isVideoExtendedModeEnabled_def ex_extended_eq ex_defs
        activeDisplays_def)

section \<open>The effective decision\<close>

text \<open>
  C3. In every state the decision returned by \<open>checkVideoExtendedMode\<close> is
  \<open>mVideoExtendedMode\<close> and not \<open>mForceCloneMode\<close>, so it is false whenever
  \<open>mForceCloneMode\<close> is set. For a frame: when the support switch is on and a layer of
  the primary list carries the trick mode flag, the decision after \<open>analyzeContents\<close>
  is false, whatever the extended mode detection computed.
\<close>

theorem C3_effective_decision:
  "checkVideoExtendedMode s = (mVideoExtendedMode s \<and> \<not> mForceCloneMode s)
   \<and> (mForceCloneMode s \<longrightarrow> \<not> checkVideoExtendedMode s)
   \<and> (mEnableVideoExtendedMode s \<and> trickDetected env c \<longrightarrow>
        \<not> checkVideoExtendedMode (fst (analyzeContents env (Some c # others) s)))"
proof -
  have "\<not> checkVideoExtendedMode (fst (analyzeContents env (Some c # others) s))"
    if en: "mEnableVideoExtendedMode s" and tr: "trickDetected env c"
  proof -
    let ?s3 = "beforeDetection env (Some c # others) s"
    let ?s5 = "detectVideoExtendedMode env ?s3"
    obtain others' where o: "mCachedDisplays ?s3 = Some c # others'"
      using beforeDetection_primary by blast
    show ?thesis
    proof (cases "mVideoExtendedMode ?s5")
      case False
      then show ?thesis
        using en by (simp add: analyzeContents_unfold Let_def beforeDetection_fields
            checkVideoExtendedMode_def)
    next
      case True
      have "mForceCloneMode (detectTrickModePrimary env ?s5)
              = mForceCloneMode (fst (detectTrickMode env (Some c) ?s5))"
        using o by (simp add: detectTrickModePrimary_def split: prod.splits)
      then have "mForceCloneMode (detectTrickModePrimary env ?s5)"
        using tr by (simp add: detectTrickMode_force)
      then show ?thesis
        using en True by (simp add: analyzeContents_unfold Let_def beforeDetection_fields
            checkVideoExtendedMode_def)
    qed
  qed
  then show ?thesis by (simp add: checkVideoExtendedMode_def)
qed

theorem C3_effective_decision_witness:
  "mVideoExtendedMode ex_trick \<and> mForceCloneMode ex_trick \<and> \<not> checkVideoExtendedMode ex_trick
   \<and> mEnableVideoExtendedMode ex_extended
   \<and> trickDetected ex_env (ex_content 0 (ex_layer 7 4 1920 1080))
   \<and> \<not> checkVideoExtendedMode
         (fst (analyzeContents ex_env
                 [Some (ex_content 0 (ex_layer 7 4 1920 1080)),
                  Some (ex_content 0 (ex_layer 7 0 1920 1080))] ex_extended))"
proof -
  have a: "mForceCloneMode ex_trick" "mVideoExtendedMode ex_trick"
    by (simp_all add: ex_trick_eq)
  have b: "mEnableVideoExtendedMode ex_extended"
    by (simp add: ex_extended_eq initialize_def readEnableProperty_def)
  have c: "trickDetected ex_env (ex_content 0 (ex_layer 7 4 1920 1080))"
    by (simp add: trickDetected_def trickFlagged_def ex_content_def ex_layer_def ex_env_def)
  from C3_effective_decision [of ex_trick ex_env "ex_content 0 (ex_layer 7 4 1920 1080)"
      "[Some (ex_content 0 (ex_layer 7 0 1920 1080))]"] a
  have d: "\<not> checkVideoExtendedMode ex_trick" by blast
  from C3_effective_decision [of ex_extended ex_env "ex_content 0 (ex_layer 7 4 1920 1080)"
      "[Some (ex_content 0 (ex_layer 7 0 1920 1080))]"] b c
  have e: "\<not> checkVideoExtendedMode
         (fst (analyzeContents ex_env
                 [Some (ex_content 0 (ex_layer 7 4 1920 1080)),
                  Some (ex_content 0 (ex_layer 7 0 1920 1080))] ex_extended))" by blast
  from a b c d e show ?thesis by blast
qed

section \<open>The event queue\<close>

text \<open>
  C5. Whatever events \<open>es\<close> are appended by \<open>postEvent\<close>, one run of
  \<open>handlePendingEvents\<close> leaves the analyzer in the state reached by applying the
  handler of each pending event once, oldest first (the events pending before, then
  \<open>es\<close> in the order posted), and leaves the vector empty. The vsync manager is called
  once for each hot-plug event handled and not otherwise.
\<close>

theorem C5_drain_fifo:
  "handlePendingEvents env (foldl (\<lambda>s e. postEvent e s) s es) =
     foldl (\<lambda>s e. handleEvent env e s) (s\<lparr>mPendingEvents := []\<rparr>) (mPendingEvents s @ es)
   \<and> mPendingEvents (handlePendingEvents env (foldl (\<lambda>s e. postEvent e s) s es)) = []
   \<and> calls (handlePendingEvents env (foldl (\<lambda>s e. postEvent e s) s es)) =
       calls s @ map (\<lambda>e. ResetVsyncSource) (filter isHotplug (mPendingEvents s @ es))"
proof -
  let ?s = "foldl (\<lambda>s e. postEvent e s) s es"
  have a: "handlePendingEvents env ?s =
      foldl (\<lambda>s e. handleEvent env e s) (s\<lparr>mPendingEvents := []\<rparr>) (mPendingEvents s @ es)"
    unfolding postEvent_foldl by (subst handlePendingEvents_foldl) simp
  have b: "mPendingEvents (handlePendingEvents env ?s) = []"
    by (simp add: handlePendingEvents_fields)
  have c: "calls (handlePendingEvents env ?s) =
       calls s @ map (\<lambda>e. ResetVsyncSource) (filter isHotplug (mPendingEvents s @ es))"
    unfolding a by (simp add: foldl_handleEvent_calls)
  from a b c show ?thesis by blast
qed

theorem C5_drain_fifo_witness:
  "mVideoPlaying
     (handlePendingEvents ex_env
        (foldl (\<lambda>s e. postEvent e s) (initialize (Some 1) constructor)
           [VIDEO_EVENT False False, HOTPLUG_EVENT True, VIDEO_EVENT False True]))
   \<and> calls
     (handlePendingEvents ex_env
        (foldl (\<lambda>s e. postEvent e s) (initialize (Some 1) constructor)
           [VIDEO_EVENT False False, HOTPLUG_EVENT True, VIDEO_EVENT False True]))
       = [ResetVsyncSource]"
  using C5_drain_fifo [of ex_env "initialize (Some 1) constructor"
      "[VIDEO_EVENT False False, HOTPLUG_EVENT True, VIDEO_EVENT False True]"]
  by (simp add: initialize_def readEnableProperty_def constructor_def handleEvent_def
        handleVideoEvent_def handleHotplugEvent_def isHotplug_def)

section \<open>Trick mode detection\<close>

text \<open>
  C6. \<open>detectTrickMode\<close> on a display list is edge-triggered. When the detected value
  (some layer of the list carries \<open>HWC_TRICK_MODE\<close>) differs from the stored
  \<open>mForceCloneMode\<close>, the call sets \<open>HWC_GEOMETRY_CHANGED\<close> in the flags of the list and
  stores the detected value; when it equals the stored value, the analyzer and the flags
  of the list are unchanged. A second call right after the first changes nothing at all,
  and a call on a null list does nothing.
\<close>

theorem C6_trick_mode_edge_triggered:
  "(trickDetected env c \<noteq> mForceCloneMode s \<longrightarrow>
      (\<exists>c'. detectTrickMode env (Some c) s = (s\<lparr>mForceCloneMode := trickDetected env c\<rparr>, Some c')
            \<and> dflags c' = dflags c OR HWC_GEOMETRY_CHANGED env))
   \<and> (trickDetected env c = mForceCloneMode s \<longrightarrow>
      (\<exists>c'. detectTrickMode env (Some c) s = (s, Some c') \<and> dflags c' = dflags c))
   \<and> detectTrickMode env (snd (detectTrickMode env (Some c) s)) (fst (detectTrickMode env (Some c) s))
       = detectTrickMode env (Some c) s
   \<and> detectTrickMode env None s = (s, None)"
proof (cases "trickDetected env c = mForceCloneMode s")
  case True
  then show ?thesis
    by (simp add: detectTrickMode_same trickDetected_after trickLoop_again
          trickDetected_def [of env c] detectTrickMode_None)
next
  case False
  then show ?thesis
    by (simp add: detectTrickMode_change detectTrickMode_same trickDetected_after
          trickLoop_again trickDetected_def [of env c] detectTrickMode_None)
qed

theorem C6_trick_mode_witness:
  "trickDetected ex_env (ex_content 0 (ex_layer 7 4 1920 1080)) \<noteq> mForceCloneMode ex_extended
   \<and> (\<exists>c'. detectTrickMode ex_env (Some (ex_content 0 (ex_layer 7 4 1920 1080))) ex_extended
              = (ex_extended\<lparr>mForceCloneMode := True\<rparr>, Some c') \<and> dflags c' = 1)
   \<and> trickDetected ex_env (ex_content 0 (ex_layer 7 4 1920 1080)) = mForceCloneMode ex_trick
   \<and> (\<exists>c'. detectTrickMode ex_env (Some (ex_content 0 (ex_layer 7 4 1920 1080))) ex_trick
              = (ex_trick, Some c') \<and> dflags c' = 0)"
proof -
  have t: "trickDetected ex_env (ex_content 0 (ex_layer 7 4 1920 1080))"
    by (simp add: trickDetected_def trickFlagged_def ex_content_def ex_layer_def ex_env_def)
  have a: "\<not> mForceCloneMode ex_extended" by (simp add: ex_extended_eq initialize_def)
  have b: "mForceCloneMode ex_trick" by (simp add: ex_trick_eq)
  have g: "HWC_GEOMETRY_CHANGED ex_env = 1" "dflags (ex_content 0 (ex_layer 7 4 1920 1080)) = 0"
    by (simp_all add: ex_env_def ex_content_def)
  from C6_trick_mode_edge_triggered [of ex_env "ex_content 0 (ex_layer 7 4 1920 1080)" ex_extended]
    C6_trick_mode_edge_triggered [of ex_env "ex_content 0 (ex_layer 7 4 1920 1080)" ex_trick]
    t a b g
  show ?thesis by simp
qed

section \<open>When no video is playing\<close>

text \<open>
  C10. For every \<open>analyzeContents\<close> call with the support switch on in which
  \<open>mVideoPlaying\<close> is false once the pending events are handled, both
  \<open>mVideoExtendedMode\<close> and \<open>mForceCloneMode\<close> are false after the call, with or
  without a trick mode flag on any layer, and trick mode detection does not run: the
  array comes back as it was when detection was reached, its primary slot as passed in.
\<close>

theorem C10_not_playing_cancels:
  assumes "mEnableVideoExtendedMode s"
    and "\<not> mVideoPlaying (handlePendingEvents env (s\<lparr>mCachedDisplays := displays\<rparr>))"
  shows "\<not> mVideoExtendedMode (fst (analyzeContents env displays s))
         \<and> \<not> mForceCloneMode (fst (analyzeContents env displays s))
         \<and> snd (analyzeContents env displays s) = mCachedDisplays (beforeDetection env displays s)
         \<and> take 1 (snd (analyzeContents env displays s)) = take 1 displays"
proof -
  let ?s3 = "beforeDetection env displays s"
  have np: "\<not> mVideoPlaying ?s3" using assms(2) by (simp add: beforeDetection_playing)
  have en: "mEnableVideoExtendedMode ?s3" using assms(1) by (simp add: beforeDetection_fields)
  show ?thesis
    using en by (simp add: analyzeContents_unfold Let_def detect_not_playing [OF np]
        beforeDetection_take)
qed

theorem C10_not_playing_witness:
  "mEnableVideoExtendedMode (postVideoEvent False False ex_trick)
   \<and> mForceCloneMode (postVideoEvent False False ex_trick)
   \<and> trickDetected ex_env (ex_content 0 (ex_layer 7 4 1920 1080))
   \<and> \<not> mVideoPlaying
         (handlePendingEvents ex_env
            ((postVideoEvent False False ex_trick)
               \<lparr>mCachedDisplays := [Some (ex_content 0 (ex_layer 7 4 1920 1080)),
                                     Some (ex_content 0 (ex_layer 7 0 1920 1080))]\<rparr>))
   \<and> \<not> mVideoExtendedMode
         (fst (analyzeContents ex_env
                 [Some (ex_content 0 (ex_layer 7 4 1920 1080)),
                  Some (ex_content 0 (ex_layer 7 0 1920 1080))]
                 (postVideoEvent False False ex_trick)))
   \<and> \<not> mForceCloneMode
         (fst (analyzeContents ex_env
                 [Some (ex_content 0 (ex_layer 7 4 1920 1080)),
                  Some (ex_content 0 (ex_layer 7 0 1920 1080))]
                 (postVideoEvent False False ex_trick)))"
proof -
  let ?s = "postVideoEvent False False ex_trick"
  let ?ds = "[Some (ex_content 0 (ex_layer 7 4 1920 1080)),
              Some (ex_content 0 (ex_layer 7 0 1920 1080))]"
  have a: "mEnableVideoExtendedMode ?s" "mForceCloneMode ?s"
    by (simp_all add: ex_trick_eq postVideoEvent_def postEvent_def initialize_def
          readEnableProperty_def)
  have t: "trickDetected ex_env (ex_content 0 (ex_layer 7 4 1920 1080))"
    by (simp add: trickDetected_def trickFlagged_def ex_content_def ex_layer_def ex_env_def)
  have b: "\<not> mVideoPlaying (handlePendingEvents ex_env (?s\<lparr>mCachedDisplays := ?ds\<rparr>))"
    by (simp add: ex_trick_eq postVideoEvent_def postEvent_def initialize_def
          readEnableProperty_def constructor_def handlePendingEvents_Nil
          handlePendingEvents_Cons handleEvent_def handleVideoEvent_def)
  from C10_not_playing_cancels [OF a(1) b] a t b show ?thesis by blast
qed

section \<open>The embedded test\<close>

text \<open>
  C2 (as amended). When extended mode is recomputed and the handle of the primary
  list's video layer is found on a secondary list, \<open>mVideoExtendedMode\<close> becomes true
  exactly when the matched layer is not embedded, and the layer is embedded exactly when
  the mode of the external device is available and the destination width is below
  \<open>hdisplay - 1\<close> and the destination height below \<open>vdisplay - 1\<close>. In particular a
  destination rectangle at least as large as the mode in both dimensions gives true.
\<close>

theorem C2_embedded_threshold:
  assumes "mVideoPlaying s" and "2 \<le> activeDisplays (mCachedDisplays s)"
    and "geometryReported env (mCachedDisplays s)"
    and "mCachedDisplays s = Some content # others"
    and "primaryLoop env (hwLayers content) = Some videoHandle"
    and "externalLoop videoHandle others = Some layer"
  shows "mVideoExtendedMode (detectVideoExtendedMode env s) = (\<not> isVideoEmbedded env layer)
     \<and> isVideoEmbedded env layer =
         (\<exists>mode. getModeInfo env DEVICE_EXTERNAL = Some mode
            \<and> dstW layer < uint (hdisplay mode) - 1 \<and> dstH layer < uint (vdisplay mode) - 1)
     \<and> (\<forall>mode. getModeInfo env DEVICE_EXTERNAL = Some mode
            \<and> uint (hdisplay mode) \<le> dstW layer \<and> uint (vdisplay mode) \<le> dstH layer
          \<longrightarrow> mVideoExtendedMode (detectVideoExtendedMode env s))"
proof -
  have a: "mVideoExtendedMode (detectVideoExtendedMode env s) = (\<not> isVideoEmbedded env layer)"
    by (simp add: detect_recompute [OF assms])
  have b: "isVideoEmbedded env layer =
         (\<exists>mode. getModeInfo env DEVICE_EXTERNAL = Some mode
            \<and> dstW layer < uint (hdisplay mode) - 1 \<and> dstH layer < uint (vdisplay mode) - 1)"
    by (rule isVideoEmbedded_iff)
  have c: "mVideoExtendedMode (detectVideoExtendedMode env s)"
    if "getModeInfo env DEVICE_EXTERNAL = Some mode"
      and "uint (hdisplay mode) \<le> dstW layer" and "uint (vdisplay mode) \<le> dstH layer" for mode
    using that a by (simp add: isVideoEmbedded_def)
  from a b c show ?thesis by blast
qed

theorem C2_embedded_threshold_witness:
  "isVideoEmbedded ex_env (ex_layer 7 0 1918 1078)
   \<and> \<not> mVideoExtendedMode
         (detectVideoExtendedMode ex_env (ex_playing\<lparr>mVideoPlaying := True,
            mCachedDisplays := ex_frame 1 1918 1078\<rparr>))
   \<and> \<not> isVideoEmbedded ex_env (ex_layer 7 0 1920 1080)
   \<and> mVideoExtendedMode
         (detectVideoExtendedMode ex_env (ex_playing\<lparr>mVideoPlaying := True,
            mCachedDisplays := ex_frame 1 1920 1080\<rparr>))"
proof -
  have h1: "mVideoPlaying (ex_playing\<lparr>mVideoPlaying := True, mCachedDisplays := ex_frame 1 w h\<rparr>)" for w h
    by simp
  have h2: "2 \<le> activeDisplays (mCachedDisplays (ex_playing\<lparr>mVideoPlaying := True, mCachedDisplays := ex_frame 1 w h\<rparr>))" for w h
    by (simp add: ex_more)
  have h3: "geometryReported ex_env (mCachedDisplays (ex_playing\<lparr>mVideoPlaying := True, mCachedDisplays := ex_frame 1 w h\<rparr>))" for w h
    by (simp add: ex_more ex_defs)
  have h4: "mCachedDisplays (ex_playing\<lparr>mVideoPlaying := True, mCachedDisplays := ex_frame 1 w h\<rparr>)
       = Some (ex_content 1 (ex_layer 7 0 1920 1080)) # [Some (ex_content 1 (ex_layer 7 0 w h))]"
    for w h
    by (simp add: ex_more)
  have h5: "primaryLoop ex_env (hwLayers (ex_content 1 (ex_layer 7 0 1920 1080))) = Some 7"
    by (simp add: ex_more ex_defs)
  have h6: "externalLoop 7 [Some (ex_content 1 (ex_layer 7 0 w h))] = Some (ex_layer 7 0 w h)"
    for w h
    by (simp add: ex_more ex_defs)
  have m: "getModeInfo ex_env DEVICE_EXTERNAL = Some \<lparr>hdisplay = 1920, vdisplay = 1080\<rparr>"
    by (simp add: ex_env_def)
  have d: "dstW (ex_layer 7 0 1918 1078) = 1918" "dstH (ex_layer 7 0 1918 1078) = 1078"
    "dstW (ex_layer 7 0 1920 1080) = 1920" "dstH (ex_layer 7 0 1920 1080) = 1080"
    by (simp_all add: dstW_def dstH_def ex_layer_def)
  from C2_embedded_threshold [OF h1 [of 1918 1078] h2 [of 1918 1078] h3 [of 1918 1078] h4 [of 1918 1078] h5
      h6 [of 1918 1078]] m d
  have a: "isVideoEmbedded ex_env (ex_layer 7 0 1918 1078)
     \<and> \<not> mVideoExtendedMode
         (detectVideoExtendedMode ex_env (ex_playing\<lparr>mVideoPlaying := True,
            mCachedDisplays := ex_frame 1 1918 1078\<rparr>))"
    by simp
  from C2_embedded_threshold [OF h1 [of 1920 1080] h2 [of 1920 1080] h3 [of 1920 1080] h4 [of 1920 1080] h5
      h6 [of 1920 1080]] m d
  have b: "\<not> isVideoEmbedded ex_env (ex_layer 7 0 1920 1080)
     \<and> mVideoExtendedMode
         (detectVideoExtendedMode ex_env (ex_playing\<lparr>mVideoPlaying := True,
            mCachedDisplays := ex_frame 1 1920 1080\<rparr>))"
    by simp
  from a b show ?thesis by blast
qed

text \<open>
  The claim as written puts the threshold at the mode resolution itself: a 1919 x 1079
  layer on a 1920 x 1080 mode is strictly smaller in both dimensions, yet it is not
  embedded and the frame engages extended mode.
\<close>

theorem C2_off_by_one_counterexample:
  "getModeInfo ex_env DEVICE_EXTERNAL = Some \<lparr>hdisplay = 1920, vdisplay = 1080\<rparr>
   \<and> dstW (ex_layer 7 0 1919 1079) < uint (1920 :: 16 word)
   \<and> dstH (ex_layer 7 0 1919 1079) < uint (1080 :: 16 word)
   \<and> \<not> isVideoEmbedded ex_env (ex_layer 7 0 1919 1079)
   \<and> externalLoop 7 (tl (ex_frame 1 1919 1079)) = Some (ex_layer 7 0 1919 1079)
   \<and> \<not> mVideoExtendedMode ex_playing
   \<and> mVideoExtendedMode (fst (analyzeContents ex_env (ex_frame 1 1919 1079) ex_playing))"
  by (simp add: ex_more ex_defs)

section \<open>Frames without a geometry change\<close>

text \<open>
  C4 (as amended). For every \<open>analyzeContents\<close> call in which no display list has
  \<open>HWC_GEOMETRY_CHANGED\<close> set and no blank event is pending, \<open>mVideoExtendedMode\<close>
  after the call is what it was before, provided that either the support switch is off,
  or a video is playing once the pending events are handled and at least two slots hold
  a display list.
\<close>

theorem C4_no_geometry_change_retains:
  assumes "\<not> geometryReported env displays"
    and "\<forall>b. BLANK_EVENT b \<notin> set (mPendingEvents s)"
    and "mEnableVideoExtendedMode s \<longrightarrow>
           mVideoPlaying (handlePendingEvents env (s\<lparr>mCachedDisplays := displays\<rparr>))
           \<and> 2 \<le> activeDisplays displays"
  shows "mVideoExtendedMode (fst (analyzeContents env displays s)) = mVideoExtendedMode s"
proof (cases "mEnableVideoExtendedMode s")
  case False
  then show ?thesis
    by (simp add: analyzeContents_unfold Let_def beforeDetection_fields)
next
  case True
  let ?s3 = "beforeDetection env displays s"
  have p: "mVideoPlaying ?s3" using assms(3) True by (simp add: beforeDetection_playing)
  have n: "2 \<le> activeDisplays (mCachedDisplays ?s3)"
    using assms(3) True by (simp add: beforeDetection_fields)
  have g: "\<not> geometryReported env (mCachedDisplays ?s3)"
    using assms(1) by (simp add: beforeDetection_geometry [OF assms(2)])
  have "detectVideoExtendedMode env ?s3 = ?s3" by (rule detect_retained [OF p n g])
  then show ?thesis
    using True by (simp add: analyzeContents_unfold Let_def beforeDetection_fields)
qed

theorem C4_no_geometry_change_witness:
  "\<not> geometryReported ex_env (ex_frame 0 1920 1080)
   \<and> (\<forall>b. BLANK_EVENT b \<notin> set (mPendingEvents ex_extended))
   \<and> mEnableVideoExtendedMode ex_extended
   \<and> mVideoPlaying
        (handlePendingEvents ex_env (ex_extended\<lparr>mCachedDisplays := ex_frame 0 1920 1080\<rparr>))
   \<and> 2 \<le> activeDisplays (ex_frame 0 1920 1080)
   \<and> mVideoExtendedMode ex_extended
   \<and> mVideoExtendedMode (fst (analyzeContents ex_env (ex_frame 0 1920 1080) ex_extended))"
proof -
  have a: "\<not> geometryReported ex_env (ex_frame 0 1920 1080)"
    by (simp add: ex_more ex_defs)
  have b: "\<forall>b. BLANK_EVENT b \<notin> set (mPendingEvents ex_extended)"
    by (simp add: ex_extended_eq initialize_def)
  have c: "mEnableVideoExtendedMode ex_extended" "mVideoExtendedMode ex_extended"
    by (simp_all add: ex_extended_eq initialize_def readEnableProperty_def)
  have d: "mVideoPlaying
        (handlePendingEvents ex_env (ex_extended\<lparr>mCachedDisplays := ex_frame 0 1920 1080\<rparr>))"
    by (simp add: ex_extended_eq initialize_def handlePendingEvents_Nil)
  have e: "2 \<le> activeDisplays (ex_frame 0 1920 1080)"
    by (simp add: ex_more)
  from C4_no_geometry_change_retains [OF a b] a b c d e
  show ?thesis by simp
qed

text \<open>
  The claim as written, for every such call: it fails when the video has stopped. Two
  displays, no geometry change, a pending video event with \<open>playing = false\<close>: the flag
  goes from true to false.
\<close>

theorem C4_video_stopped_counterexample:
  "\<not> geometryReported ex_env (ex_frame 0 1920 1080)
   \<and> mVideoExtendedMode (postVideoEvent False False ex_extended)
   \<and> \<not> mVideoExtendedMode
         (fst (analyzeContents ex_env (ex_frame 0 1920 1080)
                 (postVideoEvent False False ex_extended)))"
  by (simp add: ex_extended_eq ex_more ex_defs)

section \<open>Blanking\<close>

text \<open>
  C7. After \<open>blankSecondaryDevice\<close>, every layer but the last of every non-null list
  in a slot other than 0 has, when \<open>mBlankDevice\<close> is set, \<open>HWC_HINT_CLEAR_FB\<close> set,
  \<open>HWC_SKIP_LAYER\<close> clear and composition type \<open>HWC_OVERLAY\<close>, and otherwise
  \<open>HWC_HINT_CLEAR_FB\<close> clear and composition type \<open>HWC_FRAMEBUFFER\<close>; no list or
  layer appears or disappears, and slot 0 is untouched. The same holds after
  \<open>handleBlankEvent blank\<close> for the value \<open>blank\<close>. For a frame: when the blank flag
  is set once the pending events are handled, the array returned by \<open>analyzeContents\<close>
  has all those layers blanked.
\<close>

theorem C7_blank_secondary:
  "blankedSecondaries env (mBlankDevice s) (mCachedDisplays (blankSecondaryDevice env s))
   \<and> layerCounts (mCachedDisplays (blankSecondaryDevice env s)) = layerCounts (mCachedDisplays s)
   \<and> take 1 (mCachedDisplays (blankSecondaryDevice env s)) = take 1 (mCachedDisplays s)
   \<and> blankedSecondaries env blank (mCachedDisplays (handleBlankEvent env blank s))
   \<and> layerCounts (mCachedDisplays (handleBlankEvent env blank s)) = layerCounts (mCachedDisplays s)
   \<and> take 1 (mCachedDisplays (handleBlankEvent env blank s)) = take 1 (mCachedDisplays s)
   \<and> (mBlankDevice (handlePendingEvents env (s\<lparr>mCachedDisplays := displays\<rparr>)) \<longrightarrow>
        blankedSecondaries env True (snd (analyzeContents env displays s)))"
proof -
  have "blankedSecondaries env True (snd (analyzeContents env displays s))"
    if b: "mBlankDevice (handlePendingEvents env (s\<lparr>mCachedDisplays := displays\<rparr>))"
  proof -
    let ?s2 = "handlePendingEvents env (s\<lparr>mCachedDisplays := displays\<rparr>)"
    have "beforeDetection env displays s = blankSecondaryDevice env ?s2"
      using b by (simp add: beforeDetection_def)
    then have "tl (snd (analyzeContents env displays s))
                 = tl (mCachedDisplays (blankSecondaryDevice env ?s2))"
      by (simp add: analyzeContents_tl)
    moreover have "blankedSecondaries env True (mCachedDisplays (blankSecondaryDevice env ?s2))"
      using blankSecondaryDevice_blanked [of env ?s2] b by simp
    ultimately show ?thesis by (simp add: blankedSecondaries_def)
  qed
  then show ?thesis
    by (simp add: blankSecondaryDevice_blanked blankSecondaryDevice_counts
          blankSecondaryDevice_take handleBlankEvent_blanked handleBlankEvent_counts
          handleBlankEvent_take)
qed

theorem C7_blank_secondary_witness:
  "mBlankDevice
     (handlePendingEvents ex_env
        ((postBlankEvent True ex_playing)\<lparr>mCachedDisplays := ex_frame_skip\<rparr>))
   \<and> blankedSecondaries ex_env True
        (snd (analyzeContents ex_env ex_frame_skip (postBlankEvent True ex_playing)))
   \<and> map (map_option (map (\<lambda>l. (hints l, flags l, compositionType l)) \<circ> hwLayers))
        (snd (analyzeContents ex_env ex_frame_skip (postBlankEvent True ex_playing)))
       = [Some [(0, 1, 0), (0, 0, 0)], Some [(2, 0, 1), (0, 0, 0)]]"
proof -
  have a: "mBlankDevice
     (handlePendingEvents ex_env
        ((postBlankEvent True ex_playing)\<lparr>mCachedDisplays := ex_frame_skip\<rparr>))"
    by (simp add: postBlankEvent_def ex_more ex_defs)
  have b: "map (map_option (map (\<lambda>l. (hints l, flags l, compositionType l)) \<circ> hwLayers))
        (snd (analyzeContents ex_env ex_frame_skip (postBlankEvent True ex_playing)))
       = [Some [(0, 1, 0), (0, 0, 0)], Some [(2, 0, 1), (0, 0, 0)]]"
    by (simp add: postBlankEvent_def ex_more ex_defs)
  from C7_blank_secondary [of ex_env "postBlankEvent True ex_playing" True ex_frame_skip] a b
  show ?thesis by blast
qed

section \<open>Failing queries\<close>

text \<open>
  C8 (as amended). A failing query is answered false. A layer whose buffer cannot be
  locked is not a video layer, and a recomputation in which no layer of the primary
  list can be locked leaves \<open>mVideoExtendedMode\<close> false. When the mode of the external
  device is not available the matched layer is reported as not embedded, and so the
  recomputation that reaches a matched layer sets \<open>mVideoExtendedMode\<close> to true.
\<close>

theorem C8_query_failures:
  "(lockDataBuffer env (handle layer) = None \<longrightarrow> \<not> isVideoLayer env layer)
   \<and> (getModeInfo env DEVICE_EXTERNAL = None \<longrightarrow> \<not> isVideoEmbedded env layer)
   \<and> (mVideoPlaying s \<and> 2 \<le> activeDisplays (mCachedDisplays s)
        \<and> geometryReported env (mCachedDisplays s)
        \<and> mCachedDisplays s = Some content # others
        \<and> (\<forall>l\<in>set (butlast (hwLayers content)). lockDataBuffer env (handle l) = None)
      \<longrightarrow> \<not> mVideoExtendedMode (detectVideoExtendedMode env s))
   \<and> (mVideoPlaying s \<and> 2 \<le> activeDisplays (mCachedDisplays s)
        \<and> geometryReported env (mCachedDisplays s)
        \<and> mCachedDisplays s = Some content # others
        \<and> primaryLoop env (hwLayers content) = Some videoHandle
        \<and> externalLoop videoHandle others = Some matched
        \<and> getModeInfo env DEVICE_EXTERNAL = None
      \<longrightarrow> mVideoExtendedMode (detectVideoExtendedMode env s))"
proof -
  have a: "lockDataBuffer env (handle layer) = None \<longrightarrow> \<not> isVideoLayer env layer"
    by (simp add: isVideoLayer_def)
  have b: "\<not> isVideoEmbedded env l" if "getModeInfo env DEVICE_EXTERNAL = None" for l
    using that by (simp add: isVideoEmbedded_def)
  have c: "\<not> mVideoExtendedMode (detectVideoExtendedMode env s)"
    if "mVideoPlaying s" "2 \<le> activeDisplays (mCachedDisplays s)"
      "geometryReported env (mCachedDisplays s)" "mCachedDisplays s = Some content # others"
      "\<forall>l\<in>set (butlast (hwLayers content)). lockDataBuffer env (handle l) = None"
    using detect_no_video [OF that(1-4) primaryLoop_unlockable [OF that(5)]] by simp
  have d: "mVideoExtendedMode (detectVideoExtendedMode env s)"
    if "mVideoPlaying s" "2 \<le> activeDisplays (mCachedDisplays s)"
      "geometryReported env (mCachedDisplays s)" "mCachedDisplays s = Some content # others"
      "primaryLoop env (hwLayers content) = Some videoHandle"
      "externalLoop videoHandle others = Some matched"
      "getModeInfo env DEVICE_EXTERNAL = None"
    using detect_recompute [OF that(1-6)] b [OF that(7)] by simp
  from a b c d show ?thesis by blast
qed

theorem C8_query_failures_witness:
  "lockDataBuffer ex_env_nomode (handle (ex_layer 9 0 1920 1080)) = None
   \<and> \<not> isVideoLayer ex_env_nomode (ex_layer 9 0 1920 1080)
   \<and> getModeInfo ex_env_nomode DEVICE_EXTERNAL = None
   \<and> \<not> isVideoEmbedded ex_env_nomode (ex_layer 9 0 1920 1080)
   \<and> \<not> mVideoExtendedMode
         (detectVideoExtendedMode ex_env_nomode
            (ex_extended\<lparr>mCachedDisplays :=
               [Some (ex_content 1 (ex_layer 9 0 1920 1080)),
                Some (ex_content 1 (ex_layer 9 0 1920 1080))]\<rparr>))
   \<and> mVideoExtendedMode
         (detectVideoExtendedMode ex_env_nomode
            (ex_playing\<lparr>mVideoPlaying := True, mCachedDisplays := ex_frame 1 100 100\<rparr>))"
proof -
  let ?c9 = "ex_content 1 (ex_layer 9 0 1920 1080)"
  let ?s9 = "ex_extended\<lparr>mCachedDisplays := [Some ?c9, Some ?c9]\<rparr>"
  let ?s7 = "ex_playing\<lparr>mVideoPlaying := True, mCachedDisplays := ex_frame 1 100 100\<rparr>"
  have l: "lockDataBuffer ex_env_nomode (handle (ex_layer 9 0 1920 1080)) = None"
    by (simp add: ex_more ex_defs)
  have m: "getModeInfo ex_env_nomode DEVICE_EXTERNAL = None"
    by (simp add: ex_more)
  have a: "mVideoPlaying ?s9 \<and> 2 \<le> activeDisplays (mCachedDisplays ?s9)
        \<and> geometryReported ex_env_nomode (mCachedDisplays ?s9)
        \<and> mCachedDisplays ?s9 = Some ?c9 # [Some ?c9]
        \<and> (\<forall>l\<in>set (butlast (hwLayers ?c9)). lockDataBuffer ex_env_nomode (handle l) = None)"
    by (simp add: ex_extended_eq ex_more ex_defs)
  have b: "mVideoPlaying ?s7 \<and> 2 \<le> activeDisplays (mCachedDisplays ?s7)
        \<and> geometryReported ex_env_nomode (mCachedDisplays ?s7)
        \<and> mCachedDisplays ?s7 = Some (ex_content 1 (ex_layer 7 0 1920 1080))
              # [Some (ex_content 1 (ex_layer 7 0 100 100))]
        \<and> primaryLoop ex_env_nomode (hwLayers (ex_content 1 (ex_layer 7 0 1920 1080))) = Some 7
        \<and> externalLoop 7 [Some (ex_content 1 (ex_layer 7 0 100 100))] = Some (ex_layer 7 0 100 100)
        \<and> getModeInfo ex_env_nomode DEVICE_EXTERNAL = None"
    by (simp add: ex_more ex_defs)
  from C8_query_failures [where env = ex_env_nomode and layer = "ex_layer 9 0 1920 1080"
      and s = ?s9 and content = ?c9 and others = "[Some ?c9]"] l m a
  have p: "\<not> isVideoLayer ex_env_nomode (ex_layer 9 0 1920 1080)
      \<and> \<not> isVideoEmbedded ex_env_nomode (ex_layer 9 0 1920 1080)
      \<and> \<not> mVideoExtendedMode (detectVideoExtendedMode ex_env_nomode ?s9)"
    by blast
  from C8_query_failures [where env = ex_env_nomode and s = ?s7
      and content = "ex_content 1 (ex_layer 7 0 1920 1080)"
      and others = "[Some (ex_content 1 (ex_layer 7 0 100 100))]"
      and videoHandle = 7 and matched = "ex_layer 7 0 100 100"] b
  have q: "mVideoExtendedMode (detectVideoExtendedMode ex_env_nomode ?s7)"
    by blast
  from l m p q show ?thesis by blast
qed

text \<open>
  The claim as written says that \<open>mVideoExtendedMode\<close> is not set on a frame whose mode
  query fails. With no mode available, a frame whose secondary list shows the video in a
  100 x 100 rectangle takes the flag from false to true.
\<close>

theorem C8_mode_info_counterexample:
  "getModeInfo ex_env_nomode DEVICE_EXTERNAL = None
   \<and> externalLoop 7 (tl (ex_frame 1 100 100)) = Some (ex_layer 7 0 100 100)
   \<and> \<not> mVideoExtendedMode ex_playing
   \<and> mVideoExtendedMode (fst (analyzeContents ex_env_nomode (ex_frame 1 100 100) ex_playing))"
  by (simp add: ex_more ex_defs)

section \<open>The order of the steps of a frame\<close>

text \<open>
  C9 (as amended). Every \<open>analyzeContents\<close> call installs the array, handles the
  pending events, blanks the secondary devices if the blank flag is set, and clears the
  cache at the end. With the support switch on, extended mode detection runs next, on
  the array as the blanking left it, and trick mode detection on the primary list
  runs after it, and only if \<open>mVideoExtendedMode\<close> is then true. With the switch off
  neither detector runs.
\<close>

theorem C9_pipeline_order:
  "mCachedDisplays (fst (analyzeContents env displays s)) = []
   \<and> (\<not> mEnableVideoExtendedMode s \<longrightarrow>
        analyzeContents env displays s
          = ((beforeDetection env displays s)\<lparr>mCachedDisplays := []\<rparr>,
             mCachedDisplays (beforeDetection env displays s)))
   \<and> (mEnableVideoExtendedMode s \<longrightarrow>
        mVideoExtendedMode (fst (analyzeContents env displays s))
          = mVideoExtendedMode (detectVideoExtendedMode env (beforeDetection env displays s))
        \<and> (\<not> mVideoExtendedMode (detectVideoExtendedMode env (beforeDetection env displays s)) \<longrightarrow>
             analyzeContents env displays s
               = ((detectVideoExtendedMode env (beforeDetection env displays s))
                     \<lparr>mCachedDisplays := []\<rparr>,
                  mCachedDisplays (beforeDetection env displays s)))
        \<and> (mVideoExtendedMode (detectVideoExtendedMode env (beforeDetection env displays s)) \<longrightarrow>
             analyzeContents env displays s
               = ((detectTrickModePrimary env
                     (detectVideoExtendedMode env (beforeDetection env displays s)))
                     \<lparr>mCachedDisplays := []\<rparr>,
                  mCachedDisplays
                    (detectTrickModePrimary env
                       (detectVideoExtendedMode env (beforeDetection env displays s))))))"
  by (simp add: analyzeContents_unfold Let_def beforeDetection_fields)

theorem C9_pipeline_order_witness:
  "\<not> mEnableVideoExtendedMode ex_disabled
   \<and> analyzeContents ex_env ex_frame_trick ex_disabled
       = ((beforeDetection ex_env ex_frame_trick ex_disabled)\<lparr>mCachedDisplays := []\<rparr>,
          mCachedDisplays (beforeDetection ex_env ex_frame_trick ex_disabled))
   \<and> mEnableVideoExtendedMode ex_extended
   \<and> mVideoExtendedMode
        (detectVideoExtendedMode ex_env (beforeDetection ex_env ex_frame_trick ex_extended))
   \<and> analyzeContents ex_env ex_frame_trick ex_extended
       = ((detectTrickModePrimary ex_env
             (detectVideoExtendedMode ex_env (beforeDetection ex_env ex_frame_trick ex_extended)))
             \<lparr>mCachedDisplays := []\<rparr>,
          mCachedDisplays
            (detectTrickModePrimary ex_env
               (detectVideoExtendedMode ex_env
                  (beforeDetection ex_env ex_frame_trick ex_extended))))
   \<and> \<not> mVideoExtendedMode
        (detectVideoExtendedMode ex_env (beforeDetection ex_env (take 1 ex_frame_trick) ex_extended))
   \<and> analyzeContents ex_env (take 1 ex_frame_trick) ex_extended
       = ((detectVideoExtendedMode ex_env (beforeDetection ex_env (take 1 ex_frame_trick) ex_extended))
             \<lparr>mCachedDisplays := []\<rparr>,
          mCachedDisplays (beforeDetection ex_env (take 1 ex_frame_trick) ex_extended))"
proof -
  have a: "\<not> mEnableVideoExtendedMode ex_disabled"
    by (simp add: ex_disabled_eq)
  have b: "mEnableVideoExtendedMode ex_extended"
    by (simp add: ex_extended_eq initialize_def readEnableProperty_def)
  have c: "mVideoExtendedMode
        (detectVideoExtendedMode ex_env (beforeDetection ex_env ex_frame_trick ex_extended))"
    by (simp add: ex_extended_eq ex_more ex_defs)
  have d: "\<not> mVideoExtendedMode
        (detectVideoExtendedMode ex_env (beforeDetection ex_env (take 1 ex_frame_trick) ex_extended))"
    by (simp add: ex_extended_eq ex_more ex_defs)
  from C9_pipeline_order [of ex_env ex_frame_trick ex_disabled]
    C9_pipeline_order [of ex_env ex_frame_trick ex_extended]
    C9_pipeline_order [of ex_env "take 1 ex_frame_trick" ex_extended] a b c d
  show ?thesis by blast
qed

text \<open>
  The claim as written has trick mode detection before extended mode detection. The
  two orders differ: with \<open>mVideoExtendedMode\<close> set, no geometry change in the frame and
  a trick mode layer on the primary list, the source keeps the flag (the geometry
  change that trick mode detection marks comes too late to be seen), while the order
  of the specification recomputes it to false.
\<close>

theorem C9_order_counterexample:
  "mEnableVideoExtendedMode ex_extended
   \<and> mVideoExtendedMode (fst (analyzeContents ex_env ex_frame_trick ex_extended))
   \<and> \<not> mVideoExtendedMode (fst (analyzeContents_spec_order ex_env ex_frame_trick ex_extended))"
  by (simp add: ex_extended_eq ex_frame_trick_def analyzeContents_spec_order_def ex_defs)

end
